theory Spec2Isabelle
  imports Complex_Main "HOL-Library.Word"
begin

section \<open>Go string primitives used by the daemon\<close>

text \<open>
  Go strings are byte sequences; they are modelled as \<open>string\<close> (lists of 8-bit
  characters).  The functions of package \<open>strings\<close> that the sources call are written
  out here for the arguments the sources pass them.
\<close>

text \<open>\<open>strings.HasPrefix(s, prefix)\<close>.\<close>

fun HasPrefix :: "string \<Rightarrow> string \<Rightarrow> bool" where
  "HasPrefix s [] = True"
| "HasPrefix [] (p # ps) = False"
| "HasPrefix (c # cs) (p # ps) = (c = p \<and> HasPrefix cs ps)"

text \<open>\<open>strings.Contains(s, substr)\<close>.\<close>

fun Contains :: "string \<Rightarrow> string \<Rightarrow> bool" where
  "Contains [] sub = (sub = [])"
| "Contains (c # cs) sub = (HasPrefix (c # cs) sub \<or> Contains cs sub)"

text \<open>\<open>strings.Split(s, sep)\<close> for a separator \<open>sep\<close> of one byte.\<close>

fun Split :: "string \<Rightarrow> char \<Rightarrow> string list" where
  "Split [] sep = [[]]"
| "Split (c # cs) sep =
     (if c = sep then [] # Split cs sep
      else (case Split cs sep of
              [] \<Rightarrow> [[c]]
            | p # ps \<Rightarrow> (c # p) # ps))"

section \<open>Network policy validation (package network)\<close>

type_synonym NetworkMode = string

definition NetworkModeNone :: NetworkMode where "NetworkModeNone = ''none''"
definition NetworkModeAllowlist :: NetworkMode where "NetworkModeAllowlist = ''allowlist''"
definition NetworkModeBlocklist :: NetworkMode where "NetworkModeBlocklist = ''blocklist''"
definition NetworkModeIsolated :: NetworkMode where "NetworkModeIsolated = ''isolated''"

record NetworkRule =
  Type :: string
  Value :: string
  Comment :: string

record NetworkConfig =
  Mode :: NetworkMode
  Rules :: "NetworkRule list"

text \<open>
  The errors built by \<open>fmt.Errorf\<close> in \<open>ValidateConfig\<close> and \<open>validateRule\<close>, one
  constructor per format string, carrying the formatted arguments.
\<close>

datatype validation_error =
    RequiresRule NetworkMode
  | InvalidMode NetworkMode
  | RuleError int validation_error
  | EmptyValue
  | InvalidIP string
  | CIDRNoSlash string
  | DomainSpaces string
  | InvalidRuleType string

text \<open>The inner loop of \<open>isValidIP\<close> over the characters of one part.\<close>

fun octetLoop :: "int \<Rightarrow> string \<Rightarrow> int option" where
  "octetLoop val [] = Some val"
| "octetLoop val (c # cs) =
     (if of_char c < (of_char CHR ''0'' :: nat) \<or> of_char c > (of_char CHR ''9'' :: nat) then None
      else octetLoop (val * 10 + (int (of_char c) - int (of_char CHR ''0''))) cs)"

text \<open>The body of the loop over the parts: \<open>False\<close> where the source returns false.\<close>

definition validPart :: "string \<Rightarrow> bool" where
  "validPart part =
     (if length part = 0 \<or> length part > 3 then False
      else (case octetLoop 0 part of
              None \<Rightarrow> False
            | Some val \<Rightarrow>
                if val > 255 then False
                else if length part > 1 \<and> part ! 0 = CHR ''0'' then False
                else True))"

definition isValidIP :: "string \<Rightarrow> bool" where
  "isValidIP ip =
     (let parts = Split ip CHR ''.'' in
      if length parts \<noteq> 4 then False else list_all validPart parts)"

definition validateRule :: "NetworkRule \<Rightarrow> validation_error option" where
  "validateRule rule =
     (if Value rule = [] then Some EmptyValue
      else if Type rule = ''ip'' then
        (if \<not> isValidIP (Value rule) then Some (InvalidIP (Value rule)) else None)
      else if Type rule = ''cidr'' then
        (if \<not> Contains (Value rule) ''/'' then Some (CIDRNoSlash (Value rule)) else None)
      else if Type rule = ''domain'' then
        (if Contains (Value rule) '' '' then Some (DomainSpaces (Value rule)) else None)
      else Some (InvalidRuleType (Type rule)))"

text \<open>The loop \<open>for i, rule := range config.Rules\<close>, started at index \<open>i\<close>.\<close>

fun validateRules :: "int \<Rightarrow> NetworkRule list \<Rightarrow> validation_error option" where
  "validateRules i [] = None"
| "validateRules i (rule # rest) =
     (case validateRule rule of
        Some err \<Rightarrow> Some (RuleError (i + 1) err)
      | None \<Rightarrow> validateRules (i + 1) rest)"

text \<open>\<open>ValidateConfig\<close>; the nil pointer is \<open>None\<close>, the nil error is \<open>None\<close>.\<close>

definition ValidateConfig :: "NetworkConfig option \<Rightarrow> validation_error option" where
  "ValidateConfig config =
     (case config of
        None \<Rightarrow> None
      | Some cfg \<Rightarrow>
          if Mode cfg = NetworkModeNone \<or> Mode cfg = NetworkModeIsolated then None
          else if Mode cfg = NetworkModeAllowlist \<or> Mode cfg = NetworkModeBlocklist then
            (if length (Rules cfg) = 0 then Some (RequiresRule (Mode cfg))
             else validateRules 0 (Rules cfg))
          else Some (InvalidMode (Mode cfg)))"


section \<open>Installing a policy into a VM (package network, Applier)\<close>

text \<open>
  The hypervisor client is an interface; its two operations used here are calls whose
  outcome comes from the engine.  A call returns \<open>Inl\<close> of the error's text
  (\<open>err.Error()\<close>) or \<open>Inr\<close> of the captured standard output, and the outcome may
  depend on the calls issued before it.
\<close>

datatype mp_call =
    Exec string "string list"
  | Transfer string string

type_synonym mp_client = "mp_call list \<Rightarrow> mp_call \<Rightarrow> string + string"

text \<open>
  The host-side operations of \<open>ApplyToVM\<close>: rendering the script template, creating the
  temporary directory, marshalling the descriptor and writing the three staged files.
  Their outcomes are inputs of the model (\<open>Inl\<close> and \<open>Some\<close> carry the error's text).
\<close>

record host_env =
  generateIptablesScript :: "NetworkConfig \<Rightarrow> string + string"
  mkdirTemp :: "string + string"
  marshalIndent :: "NetworkConfig \<Rightarrow> string + string"
  writeFile :: "string \<Rightarrow> string \<Rightarrow> nat \<Rightarrow> string option"

text \<open>The file modes \<open>0644\<close> and \<open>0755\<close> (octal).\<close>

definition perm_0644 :: nat where "perm_0644 = 6 * 64 + 4 * 8 + 4"
definition perm_0755 :: nat where "perm_0755 = 7 * 64 + 5 * 8 + 5"

definition vmNetworkDir :: string where "vmNetworkDir = ''/opt/dabbi/network''"
definition vmConfigFile :: string where "vmConfigFile = ''/opt/dabbi/network/config.json''"
definition vmScriptFile :: string where "vmScriptFile = ''/opt/dabbi/network/apply-rules.sh''"
definition vmServiceFile :: string where
  "vmServiceFile = ''/etc/systemd/system/dabbi-network.service''"

definition systemdServiceTemplate :: string where
  "systemdServiceTemplate =
     ''[Unit]'' @ [CHR 0x0A] @
     ''Description=Dabbi Network Rules'' @ [CHR 0x0A] @
     ''After=network.target'' @ [CHR 0x0A] @
     [CHR 0x0A] @
     ''[Service]'' @ [CHR 0x0A] @
     ''Type=oneshot'' @ [CHR 0x0A] @
     ''ExecStart=/opt/dabbi/network/apply-rules.sh'' @ [CHR 0x0A] @
     ''RemainAfterExit=yes'' @ [CHR 0x0A] @
     [CHR 0x0A] @
     ''[Install]'' @ [CHR 0x0A] @
     ''WantedBy=multi-user.target'' @ [CHR 0x0A]"

definition GenerateSystemdService :: string where
  "GenerateSystemdService = systemdServiceTemplate"

text \<open>
  The errors \<open>ApplyToVM\<close> and \<open>GetCurrentConfig\<close> return: \<open>fmt.Errorf(label: %w, err)\<close>
  is \<open>StepFailed label cause\<close>, with the cause's text.
\<close>

datatype apply_error =
    InvalidNetworkConfig validation_error
  | StepFailed string string

text \<open>
  One call on the client inside \<open>ApplyToVM\<close>: the call is appended to the list of issued
  calls; an error returns at once, wrapped under the step's label.
\<close>

definition mp_step ::
  "mp_client \<Rightarrow> mp_call \<Rightarrow> string \<Rightarrow>
     (mp_call list \<Rightarrow> apply_error option \<times> mp_call list) \<Rightarrow>
     mp_call list \<Rightarrow> apply_error option \<times> mp_call list" where
  "mp_step mp call label cont issued =
     (case mp issued call of
        Inl err \<Rightarrow> (Some (StepFailed label err), issued @ [call])
      | Inr out \<Rightarrow> cont (issued @ [call]))"

text \<open>
  \<open>ApplyToVM\<close> returns its error (\<open>None\<close> for nil) and the calls it issued on the
  client, in order.  \<open>filepath.Join(tmpDir, name)\<close> on the directory \<open>os.MkdirTemp\<close>
  returned is \<open>tmpDir/name\<close>.
\<close>

definition ApplyToVM ::
  "mp_client \<Rightarrow> host_env \<Rightarrow> string \<Rightarrow> NetworkConfig option \<Rightarrow>
     apply_error option \<times> mp_call list" where
  "ApplyToVM mp host vmName config0 =
     (let config = (case config0 of
                      None \<Rightarrow> \<lparr>Mode = NetworkModeNone, Rules = []\<rparr>
                    | Some c \<Rightarrow> c) in
      case ValidateConfig (Some config) of
        Some err \<Rightarrow> (Some (InvalidNetworkConfig err), [])
      | None \<Rightarrow>
      (case generateIptablesScript host config of
        Inl err \<Rightarrow> (Some (StepFailed ''failed to generate iptables script'' err), [])
      | Inr script \<Rightarrow>
      (case mkdirTemp host of
        Inl err \<Rightarrow> (Some (StepFailed ''failed to create temp dir'' err), [])
      | Inr tmpDir \<Rightarrow>
      (case marshalIndent host config of
        Inl err \<Rightarrow> (Some (StepFailed ''failed to marshal config'' err), [])
      | Inr configJSON \<Rightarrow>
      (let configPath = tmpDir @ ''/config.json'' in
       case writeFile host configPath configJSON perm_0644 of
        Some err \<Rightarrow> (Some (StepFailed ''failed to write config file'' err), [])
      | None \<Rightarrow>
      (let scriptPath = tmpDir @ ''/apply-rules.sh'' in
       case writeFile host scriptPath script perm_0755 of
        Some err \<Rightarrow> (Some (StepFailed ''failed to write script file'' err), [])
      | None \<Rightarrow>
      (let servicePath = tmpDir @ ''/dabbi-network.service'' in
       case writeFile host servicePath GenerateSystemdService perm_0644 of
        Some err \<Rightarrow> (Some (StepFailed ''failed to write service file'' err), [])
      | None \<Rightarrow>
        mp_step mp (Exec vmName [''sudo'', ''mkdir'', ''-p'', vmNetworkDir])
          ''failed to create network dir in VM''
       (mp_step mp (Transfer configPath (vmName @ '':/tmp/dabbi-config.json''))
          ''failed to transfer config''
       (mp_step mp (Transfer scriptPath (vmName @ '':/tmp/dabbi-apply-rules.sh''))
          ''failed to transfer script''
       (mp_step mp (Transfer servicePath (vmName @ '':/tmp/dabbi-network.service''))
          ''failed to transfer service''
       (mp_step mp (Exec vmName [''sudo'', ''mv'', ''/tmp/dabbi-config.json'', vmConfigFile])
          ''failed to install config''
       (mp_step mp (Exec vmName [''sudo'', ''mv'', ''/tmp/dabbi-apply-rules.sh'', vmScriptFile])
          ''failed to install script''
       (mp_step mp (Exec vmName [''sudo'', ''mv'', ''/tmp/dabbi-network.service'', vmServiceFile])
          ''failed to install service''
       (mp_step mp (Exec vmName [''sudo'', ''chmod'', ''+x'', vmScriptFile])
          ''failed to make script executable''
       (mp_step mp (Exec vmName [''sudo'', ''systemctl'', ''daemon-reload''])
          ''failed to reload systemd''
       (mp_step mp (Exec vmName [''sudo'', ''systemctl'', ''enable'', ''dabbi-network.service''])
          ''failed to enable service''
       (mp_step mp (Exec vmName [''sudo'', vmScriptFile])
          ''failed to apply rules''
       (\<lambda>issued. (None, issued)))))))))))) [])))))))"


section \<open>Reference notions for the validation and installation properties\<close>

text \<open>\<open>strings.Join(elems, sep)\<close>.\<close>

fun Join :: "string list \<Rightarrow> string \<Rightarrow> string" where
  "Join [] sep = []"
| "Join [p] sep = p"
| "Join (p # q # ps) sep = p @ sep @ Join (q # ps) sep"


text \<open>
  What the specification calls a dotted-quad address: four dot-separated decimal octets,
  each in the range 0 to 255 and written without leading zeros.
\<close>

definition is_digit :: "char \<Rightarrow> bool" where
  "is_digit c = ((of_char CHR ''0'' :: nat) \<le> of_char c \<and> of_char c \<le> (of_char CHR ''9'' :: nat))"

definition digit_value :: "char \<Rightarrow> nat" where
  "digit_value c = of_char c - of_char CHR ''0''"

fun decimal_value :: "string \<Rightarrow> nat" where
  "decimal_value [] = 0"
| "decimal_value (c # cs) = digit_value c * 10 ^ length cs + decimal_value cs"

definition spec_octet :: "string \<Rightarrow> bool" where
  "spec_octet s \<longleftrightarrow>
     s \<noteq> [] \<and> (\<forall>c\<in>set s. is_digit c) \<and> decimal_value s \<le> 255 \<and>
     (length s > 1 \<longrightarrow> hd s \<noteq> CHR ''0'')"

definition spec_dotted_quad :: "string \<Rightarrow> bool" where
  "spec_dotted_quad ip \<longleftrightarrow>
     (\<exists>a b c d. ip = a @ ''.'' @ b @ ''.'' @ c @ ''.'' @ d \<and>
        spec_octet a \<and> spec_octet b \<and> spec_octet c \<and> spec_octet d)"


text \<open>
  The client calls of \<open>ApplyToVM\<close> in program order, each with the label of the error
  its failure is wrapped in, and their execution in sequence.
\<close>

fun run_steps ::
  "mp_client \<Rightarrow> (mp_call \<times> string) list \<Rightarrow> mp_call list \<Rightarrow> apply_error option \<times> mp_call list" where
  "run_steps mp [] issued = (None, issued)"
| "run_steps mp ((call, label) # rest) issued = mp_step mp call label (run_steps mp rest) issued"

definition install_steps :: "string \<Rightarrow> string \<Rightarrow> (mp_call \<times> string) list" where
  "install_steps vmName tmpDir =
     [(Exec vmName [''sudo'', ''mkdir'', ''-p'', vmNetworkDir],
         ''failed to create network dir in VM''),
      (Transfer (tmpDir @ ''/config.json'') (vmName @ '':/tmp/dabbi-config.json''),
         ''failed to transfer config''),
      (Transfer (tmpDir @ ''/apply-rules.sh'') (vmName @ '':/tmp/dabbi-apply-rules.sh''),
         ''failed to transfer script''),
      (Transfer (tmpDir @ ''/dabbi-network.service'') (vmName @ '':/tmp/dabbi-network.service''),
         ''failed to transfer service''),
      (Exec vmName [''sudo'', ''mv'', ''/tmp/dabbi-config.json'', vmConfigFile],
         ''failed to install config''),
      (Exec vmName [''sudo'', ''mv'', ''/tmp/dabbi-apply-rules.sh'', vmScriptFile],
         ''failed to install script''),
      (Exec vmName [''sudo'', ''mv'', ''/tmp/dabbi-network.service'', vmServiceFile],
         ''failed to install service''),
      (Exec vmName [''sudo'', ''chmod'', ''+x'', vmScriptFile],
         ''failed to make script executable''),
      (Exec vmName [''sudo'', ''systemctl'', ''daemon-reload''],
         ''failed to reload systemd''),
      (Exec vmName [''sudo'', ''systemctl'', ''enable'', ''dabbi-network.service''],
         ''failed to enable service''),
      (Exec vmName [''sudo'', vmScriptFile],
         ''failed to apply rules'')]"

definition host_ok :: "host_env \<Rightarrow> NetworkConfig \<Rightarrow> string \<Rightarrow> bool" where
  "host_ok host config tmpDir \<longleftrightarrow>
     (\<exists>script configJSON.
        generateIptablesScript host config = Inr script \<and>
        mkdirTemp host = Inr tmpDir \<and>
        marshalIndent host config = Inr configJSON \<and>
        writeFile host (tmpDir @ ''/config.json'') configJSON perm_0644 = None \<and>
        writeFile host (tmpDir @ ''/apply-rules.sh'') script perm_0755 = None \<and>
        writeFile host (tmpDir @ ''/dabbi-network.service'') GenerateSystemdService perm_0644 = None)"


section \<open>Properties of splitting and joining\<close>

lemma Split_nonempty: "Split s sep \<noteq> []"
  by (induction s) (auto split: list.splits)

lemma Split_no_sep: "p \<in> set (Split s sep) \<Longrightarrow> sep \<notin> set p"
  by (induction s arbitrary: p) (auto split: list.splits if_splits)

lemma Join_Split: "Join (Split s sep) [sep] = s"
proof (induction s)
  case Nil
  then show ?case by simp
next
  case (Cons c cs)
  obtain p ps where ps: "Split cs sep = p # ps"
    using Split_nonempty [of cs sep] by (cases "Split cs sep") auto
  with Cons show ?case by (cases ps) auto
qed

lemma Split_Cons_part:
  "sep \<notin> set p \<Longrightarrow> Split (p @ sep # rest) sep = p # Split rest sep"
  by (induction p) (auto split: list.splits)

lemma Split_single: "sep \<notin> set p \<Longrightarrow> Split p sep = [p]"
  by (induction p) (auto split: list.splits)

lemma Split_Join:
  "ps \<noteq> [] \<Longrightarrow> \<forall>p\<in>set ps. sep \<notin> set p \<Longrightarrow> Split (Join ps [sep]) sep = ps"
proof (induction ps "[sep]" rule: Join.induct)
  case 1
  then show ?case by simp
next
  case (2 p)
  then show ?case by (simp add: Split_single)
next
  case (3 p q ps)
  then show ?case by (simp add: Split_Cons_part)
qed

lemma Split_four:
  "Split s sep = [a, b, c, d] \<longleftrightarrow>
     s = a @ [sep] @ b @ [sep] @ c @ [sep] @ d \<and>
     sep \<notin> set a \<and> sep \<notin> set b \<and> sep \<notin> set c \<and> sep \<notin> set d"
proof
  assume h: "Split s sep = [a, b, c, d]"
  have "Join (Split s sep) [sep] = s" by (rule Join_Split)
  with h have "s = a @ [sep] @ b @ [sep] @ c @ [sep] @ d" by simp
  moreover have "\<forall>p\<in>set (Split s sep). sep \<notin> set p" using Split_no_sep by blast
  ultimately show "s = a @ [sep] @ b @ [sep] @ c @ [sep] @ d \<and>
     sep \<notin> set a \<and> sep \<notin> set b \<and> sep \<notin> set c \<and> sep \<notin> set d"
    using h by simp
next
  assume "s = a @ [sep] @ b @ [sep] @ c @ [sep] @ d \<and>
     sep \<notin> set a \<and> sep \<notin> set b \<and> sep \<notin> set c \<and> sep \<notin> set d"
  then show "Split s sep = [a, b, c, d]"
    using Split_Join [of "[a, b, c, d]" sep] by simp
qed


section \<open>Properties of address validation\<close>

lemma char_0_iff: "c = CHR ''0'' \<longleftrightarrow> of_char c = (48::nat)"
  using of_char_eq_iff [of c "CHR ''0''", where ?'a = nat] by simp

lemma octetLoop_Some:
  "octetLoop v s = Some r \<longleftrightarrow>
     (\<forall>c\<in>set s. is_digit c) \<and> r = v * 10 ^ length s + int (decimal_value s)"
proof (induction s arbitrary: v)
  case Nil
  then show ?case by auto
next
  case (Cons c cs)
  show ?case
  proof (cases "is_digit c")
    case True
    then have "int (of_char c) - int (of_char CHR ''0'') = int (digit_value c)"
      by (simp add: is_digit_def digit_value_def)
    with True Cons show ?thesis
      by (simp add: is_digit_def algebra_simps)
  next
    case False
    then show ?thesis by (auto simp: is_digit_def)
  qed
qed

lemma decimal_value_lower:
  "s \<noteq> [] \<Longrightarrow> is_digit (hd s) \<Longrightarrow> hd s \<noteq> CHR ''0'' \<Longrightarrow> 10 ^ (length s - 1) \<le> decimal_value s"
proof (cases s)
  case Nil
  assume "s \<noteq> []" with Nil show ?thesis by simp
next
  case (Cons c cs)
  assume "is_digit (hd s)" "hd s \<noteq> CHR ''0''"
  with Cons have "of_char c \<noteq> (of_char CHR ''0'' :: nat)" "is_digit c"
    by (auto simp: char_0_iff)
  then have "1 \<le> digit_value c" unfolding is_digit_def digit_value_def by simp linarith
  then have "(10::nat) ^ length cs \<le> digit_value c * 10 ^ length cs"
    by simp
  also have "\<dots> \<le> decimal_value (c # cs)"
    by simp
  finally show ?thesis using Cons by simp
qed

lemma spec_octet_length: assumes "spec_octet s" shows "length s \<le> 3"
proof (rule ccontr)
  assume "\<not> length s \<le> 3"
  then have len: "4 \<le> length s" by simp
  with assms have "10 ^ (length s - 1) \<le> decimal_value s"
    by (intro decimal_value_lower) (auto simp: spec_octet_def)
  moreover have "(10::nat) ^ 3 \<le> 10 ^ (length s - 1)"
    using len by (intro power_increasing) auto
  ultimately show False using assms by (simp add: spec_octet_def)
qed

lemma validPart_iff: "validPart p \<longleftrightarrow> spec_octet p"
proof
  assume h: "validPart p"
  then have len: "p \<noteq> []" "length p \<le> 3"
    by (auto simp: validPart_def split: if_splits)
  from h obtain val where val: "octetLoop 0 p = Some val" "val \<le> 255"
    and lead: "\<not> (length p > 1 \<and> p ! 0 = CHR ''0'')"
    by (auto simp: validPart_def split: if_splits option.splits)
  from val have "\<forall>c\<in>set p. is_digit c" "decimal_value p \<le> 255"
    by (auto simp: octetLoop_Some)
  moreover from len have "p ! 0 = hd p" by (simp add: hd_conv_nth)
  ultimately show "spec_octet p"
    using len lead by (simp add: spec_octet_def)
next
  assume h: "spec_octet p"
  then have "length p \<le> 3" by (rule spec_octet_length)
  moreover from h have "octetLoop 0 p = Some (int (decimal_value p))"
    by (simp add: octetLoop_Some spec_octet_def)
  moreover from h have "p \<noteq> []" "p ! 0 = hd p"
    by (simp_all add: spec_octet_def hd_conv_nth)
  ultimately show "validPart p" using h
    by (simp add: validPart_def spec_octet_def)
qed

lemma digit_not_dot: "is_digit c \<Longrightarrow> c \<noteq> CHR ''.''"
  by (auto simp: is_digit_def)

lemma spec_octet_no_dot: "spec_octet s \<Longrightarrow> CHR ''.'' \<notin> set s"
  using digit_not_dot by (auto simp: spec_octet_def)

lemma length_four: "length xs = 4 \<longleftrightarrow> (\<exists>a b c d. xs = [a, b, c, d])"
  by (auto simp: length_Suc_conv numeral_eq_Suc)

lemma isValidIP_iff: "isValidIP ip \<longleftrightarrow> spec_dotted_quad ip"
proof
  assume "isValidIP ip"
  then obtain a b c d where s: "Split ip CHR ''.'' = [a, b, c, d]"
    and v: "validPart a" "validPart b" "validPart c" "validPart d"
    by (auto simp: isValidIP_def Let_def length_four split: if_splits)
  from s have "ip = a @ ''.'' @ b @ ''.'' @ c @ ''.'' @ d"
    by (simp add: Split_four)
  with v show "spec_dotted_quad ip"
    unfolding spec_dotted_quad_def validPart_iff by blast
next
  assume "spec_dotted_quad ip"
  then obtain a b c d where ip: "ip = a @ ''.'' @ b @ ''.'' @ c @ ''.'' @ d"
    and v: "spec_octet a" "spec_octet b" "spec_octet c" "spec_octet d"
    unfolding spec_dotted_quad_def by blast
  have "Split ip CHR ''.'' = [a, b, c, d]"
    using ip v by (simp add: Split_four spec_octet_no_dot)
  with v show "isValidIP ip"
    by (simp add: isValidIP_def validPart_iff)
qed

lemma Contains_single: "Contains s [c] \<longleftrightarrow> c \<in> set s"
  by (induction s) (auto split: list.splits)

lemma validateRules_None:
  "validateRules i rs = None \<longleftrightarrow> (\<forall>r\<in>set rs. validateRule r = None)"
  by (induction rs arbitrary: i) (auto split: option.splits)

section \<open>Properties of the installation sequence\<close>

lemma run_steps_Nil_fun: "run_steps mp [] = (\<lambda>issued. (None, issued))"
  by (rule ext) simp

lemma run_steps_Cons_fun:
  "run_steps mp ((call, label) # rest) = mp_step mp call label (run_steps mp rest)"
  by (rule ext) simp

lemma ApplyToVM_run_steps:
  assumes "ValidateConfig (Some config) = None" and "host_ok host config tmpDir"
  shows "ApplyToVM mp host vmName (Some config) = run_steps mp (install_steps vmName tmpDir) []"
proof -
  from assms(2) obtain script configJSON where
    "generateIptablesScript host config = Inr script"
    "mkdirTemp host = Inr tmpDir"
    "marshalIndent host config = Inr configJSON"
    "writeFile host (tmpDir @ ''/config.json'') configJSON perm_0644 = None"
    "writeFile host (tmpDir @ ''/apply-rules.sh'') script perm_0755 = None"
    "writeFile host (tmpDir @ ''/dabbi-network.service'') GenerateSystemdService perm_0644 = None"
    unfolding host_ok_def by blast
  with assms(1) show ?thesis
    by (simp add: ApplyToVM_def install_steps_def run_steps_Nil_fun run_steps_Cons_fun)
qed

lemma run_steps_first_failure:
  "i < length steps \<Longrightarrow>
   (\<forall>j<i. \<exists>out. mp (issued @ map fst (take j steps)) (fst (steps ! j)) = Inr out) \<Longrightarrow>
   mp (issued @ map fst (take i steps)) (fst (steps ! i)) = Inl e \<Longrightarrow>
   run_steps mp steps issued =
     (Some (StepFailed (snd (steps ! i)) e), issued @ map fst (take (Suc i) steps))"
proof (induction steps arbitrary: i issued)
  case Nil
  then show ?case by simp
next
  case (Cons s steps)
  obtain call label where s: "s = (call, label)" by (cases s)
  show ?case
  proof (cases i)
    case 0
    with Cons.prems s show ?thesis by (simp add: mp_step_def)
  next
    case (Suc k)
    from Cons.prems(2) Suc have "\<exists>out. mp (issued @ map fst (take 0 (s # steps))) (fst ((s # steps) ! 0)) = Inr out"
      by blast
    then obtain out where out: "mp issued call = Inr out" using s by auto
    have k: "k < length steps" using Cons.prems(1) Suc by simp
    have prev: "\<forall>j<k. \<exists>out. mp ((issued @ [call]) @ map fst (take j steps)) (fst (steps ! j)) = Inr out"
    proof (intro allI impI)
      fix j assume "j < k"
      then have "Suc j < i" using Suc by simp
      with Cons.prems(2) have "\<exists>out. mp (issued @ map fst (take (Suc j) (s # steps))) (fst ((s # steps) ! Suc j)) = Inr out"
        by blast
      then show "\<exists>out. mp ((issued @ [call]) @ map fst (take j steps)) (fst (steps ! j)) = Inr out"
        using s by simp
    qed
    have fail: "mp ((issued @ [call]) @ map fst (take k steps)) (fst (steps ! k)) = Inl e"
      using Cons.prems(3) Suc s by simp
    from Cons.IH [OF k prev fail] out s Suc show ?thesis
      by (simp add: mp_step_def)
  qed
qed

lemma run_steps_all_ok:
  "(\<forall>j<length steps. \<exists>out. mp (issued @ map fst (take j steps)) (fst (steps ! j)) = Inr out) \<Longrightarrow>
   run_steps mp steps issued = (None, issued @ map fst steps)"
proof (induction steps arbitrary: issued)
  case Nil
  then show ?case by simp
next
  case (Cons s steps)
  obtain call label where s: "s = (call, label)" by (cases s)
  from Cons.prems have "\<exists>out. mp (issued @ map fst (take 0 (s # steps))) (fst ((s # steps) ! 0)) = Inr out"
    by blast
  then obtain out where out: "mp issued call = Inr out" using s by auto
  have prev: "\<forall>j<length steps. \<exists>out. mp ((issued @ [call]) @ map fst (take j steps)) (fst (steps ! j)) = Inr out"
  proof (intro allI impI)
    fix j assume "j < length steps"
    then have "Suc j < length (s # steps)" by simp
    with Cons.prems have "\<exists>out. mp (issued @ map fst (take (Suc j) (s # steps))) (fst ((s # steps) ! Suc j)) = Inr out"
      by blast
    then show "\<exists>out. mp ((issued @ [call]) @ map fst (take j steps)) (fst (steps ! j)) = Inr out"
      using s by simp
  qed
  from Cons.IH [OF prev] out s show ?case by (simp add: mp_step_def)
qed


lemma run_steps_extends: "\<exists>ext. snd (run_steps mp steps issued) = issued @ ext"
proof (induction steps arbitrary: issued)
  case Nil
  then show ?case by simp
next
  case (Cons s steps)
  obtain call label where s: "s = (call, label)" by (cases s)
  show ?case
  proof (cases "mp issued call")
    case (Inl err)
    with s show ?thesis by (simp add: mp_step_def)
  next
    case (Inr out)
    from Cons.IH [of "issued @ [call]"] obtain ext where
      "snd (run_steps mp steps (issued @ [call])) = (issued @ [call]) @ ext" by blast
    with Inr s show ?thesis by (simp add: mp_step_def)
  qed
qed

lemma run_steps_first_call:
  "\<exists>ext. snd (run_steps mp ((call, label) # rest) []) = call # ext"
proof (cases "mp [] call")
  case (Inl err)
  then show ?thesis by (simp add: mp_step_def)
next
  case (Inr out)
  from run_steps_extends [of mp rest "[call]"] obtain ext where
    "snd (run_steps mp rest [call]) = [call] @ ext" by blast
  with Inr show ?thesis by (simp add: mp_step_def)
qed


section \<open>Claims about policy validation\<close>

text \<open>
  C4 (as amended).  \<open>ValidateConfig\<close> rejects an allowlist or blocklist configuration with
  no rules, and accepts one with rules exactly when every rule passes \<open>validateRule\<close>.
  A rule of type \<open>ip\<close> passes if and only if its value is a dotted quad of octets in
  0..255 without leading zeros; a \<open>cidr\<close> rule without a slash is rejected; a \<open>domain\<close>
  rule whose value contains the space character is rejected; a rule of any other type is
  rejected; and a mode outside the four known modes is rejected.
\<close>

theorem network_validation_rules:
  "((m = NetworkModeAllowlist \<or> m = NetworkModeBlocklist) \<longrightarrow>
      ValidateConfig (Some \<lparr>Mode = m, Rules = []\<rparr>) = Some (RequiresRule m) \<and>
      (ValidateConfig (Some \<lparr>Mode = m, Rules = rs\<rparr>) = None \<longleftrightarrow>
         rs \<noteq> [] \<and> (\<forall>r\<in>set rs. validateRule r = None))) \<and>
   (Type rip = ''ip'' \<longrightarrow> (validateRule rip = None \<longleftrightarrow> spec_dotted_quad (Value rip))) \<and>
   (Type rcidr = ''cidr'' \<and> CHR ''/'' \<notin> set (Value rcidr) \<longrightarrow> validateRule rcidr \<noteq> None) \<and>
   (Type rdom = ''domain'' \<and> CHR '' '' \<in> set (Value rdom) \<longrightarrow> validateRule rdom \<noteq> None) \<and>
   (Type rother \<notin> {''ip'', ''cidr'', ''domain''} \<longrightarrow> validateRule rother \<noteq> None) \<and>
   (Mode cfg \<notin> {NetworkModeNone, NetworkModeAllowlist, NetworkModeBlocklist, NetworkModeIsolated}
      \<longrightarrow> ValidateConfig (Some cfg) = Some (InvalidMode (Mode cfg)))"
proof -
  have modes: "(m = NetworkModeAllowlist \<or> m = NetworkModeBlocklist) \<longrightarrow>
      ValidateConfig (Some \<lparr>Mode = m, Rules = []\<rparr>) = Some (RequiresRule m) \<and>
      (ValidateConfig (Some \<lparr>Mode = m, Rules = rs\<rparr>) = None \<longleftrightarrow>
         rs \<noteq> [] \<and> (\<forall>r\<in>set rs. validateRule r = None))"
    by (auto simp: ValidateConfig_def validateRules_None NetworkModeAllowlist_def
        NetworkModeBlocklist_def NetworkModeNone_def NetworkModeIsolated_def)
  have ip: "Type rip = ''ip'' \<longrightarrow> (validateRule rip = None \<longleftrightarrow> spec_dotted_quad (Value rip))"
  proof
    assume t: "Type rip = ''ip''"
    have "\<not> spec_dotted_quad []" by (simp add: spec_dotted_quad_def)
    with t show "validateRule rip = None \<longleftrightarrow> spec_dotted_quad (Value rip)"
      by (auto simp: validateRule_def isValidIP_iff)
  qed
  have cidr: "Type rcidr = ''cidr'' \<and> CHR ''/'' \<notin> set (Value rcidr) \<longrightarrow> validateRule rcidr \<noteq> None"
    by (simp add: validateRule_def Contains_single)
  have dom: "Type rdom = ''domain'' \<and> CHR '' '' \<in> set (Value rdom) \<longrightarrow> validateRule rdom \<noteq> None"
    by (simp add: validateRule_def Contains_single)
  have ty: "Type rother \<notin> {''ip'', ''cidr'', ''domain''} \<longrightarrow> validateRule rother \<noteq> None"
    by (simp add: validateRule_def)
  have md: "Mode cfg \<notin> {NetworkModeNone, NetworkModeAllowlist, NetworkModeBlocklist,
      NetworkModeIsolated} \<longrightarrow> ValidateConfig (Some cfg) = Some (InvalidMode (Mode cfg))"
    by (simp add: ValidateConfig_def)
  from modes ip cidr dom ty md show ?thesis by blast
qed

text \<open>
  The rules at concrete inputs, among them the three addresses the specification lists
  as invalid.
\<close>

theorem network_validation_rules_witness:
  "ValidateConfig (Some \<lparr>Mode = ''allowlist'', Rules = []\<rparr>) = Some (RequiresRule ''allowlist'') \<and>
   ValidateConfig (Some \<lparr>Mode = ''allowlist'',
      Rules = [\<lparr>Type = ''ip'', Value = ''10.0.0.1'', Comment = ''''\<rparr>]\<rparr>) = None \<and>
   \<not> spec_dotted_quad ''256.0.0.1'' \<and>
   \<not> spec_dotted_quad ''01.02.03.04'' \<and>
   \<not> spec_dotted_quad ''1.2.3'' \<and>
   spec_dotted_quad ''10.0.0.1'' \<and>
   validateRule \<lparr>Type = ''cidr'', Value = ''10.0.0.0'', Comment = ''''\<rparr> \<noteq> None \<and>
   validateRule \<lparr>Type = ''domain'', Value = ''has space.com'', Comment = ''''\<rparr> \<noteq> None \<and>
   validateRule \<lparr>Type = ''url'', Value = ''x'', Comment = ''''\<rparr> \<noteq> None \<and>
   ValidateConfig (Some \<lparr>Mode = ''open'', Rules = []\<rparr>) = Some (InvalidMode ''open'')"
proof -
  have a: "validateRule \<lparr>Type = ''ip'', Value = ''256.0.0.1'', Comment = ''''\<rparr> \<noteq> None"
    by code_simp
  have b: "validateRule \<lparr>Type = ''ip'', Value = ''01.02.03.04'', Comment = ''''\<rparr> \<noteq> None"
    by code_simp
  have c: "validateRule \<lparr>Type = ''ip'', Value = ''1.2.3'', Comment = ''''\<rparr> \<noteq> None"
    by code_simp
  have d: "validateRule \<lparr>Type = ''ip'', Value = ''10.0.0.1'', Comment = ''''\<rparr> = None"
    by code_simp
  have m: "NetworkModeAllowlist = ''allowlist''" by (simp add: NetworkModeAllowlist_def)
  note w = network_validation_rules
    [of "''allowlist''" "[\<lparr>Type = ''ip'', Value = ''10.0.0.1'', Comment = ''''\<rparr>]" _
        "\<lparr>Type = ''cidr'', Value = ''10.0.0.0'', Comment = ''''\<rparr>"
        "\<lparr>Type = ''domain'', Value = ''has space.com'', Comment = ''''\<rparr>"
        "\<lparr>Type = ''url'', Value = ''x'', Comment = ''''\<rparr>"
        "\<lparr>Mode = ''open'', Rules = []\<rparr>"]
  show ?thesis
    using a b c d
      w [of "\<lparr>Type = ''ip'', Value = ''256.0.0.1'', Comment = ''''\<rparr>"]
      w [of "\<lparr>Type = ''ip'', Value = ''01.02.03.04'', Comment = ''''\<rparr>"]
      w [of "\<lparr>Type = ''ip'', Value = ''1.2.3'', Comment = ''''\<rparr>"]
      w [of "\<lparr>Type = ''ip'', Value = ''10.0.0.1'', Comment = ''''\<rparr>"]
    by (simp add: m NetworkModeNone_def NetworkModeBlocklist_def NetworkModeIsolated_def)
qed

text \<open>
  C4 as first stated speaks of whitespace in a domain.  The source tests for the space
  character only: a domain value with a horizontal tab in it passes validation.
\<close>

theorem network_validation_tab_counterexample:
  "validateRule \<lparr>Type = ''domain'', Value = [CHR ''a'', CHR 0x09, CHR ''b''], Comment = ''''\<rparr> = None \<and>
   ValidateConfig (Some \<lparr>Mode = ''allowlist'',
      Rules = [\<lparr>Type = ''domain'', Value = [CHR ''a'', CHR 0x09, CHR ''b''], Comment = ''''\<rparr>]\<rparr>)
    = None"
  by (simp add: ValidateConfig_def validateRule_def NetworkModeAllowlist_def
      NetworkModeBlocklist_def NetworkModeNone_def NetworkModeIsolated_def)

section \<open>Claims about installing a policy\<close>

text \<open>
  C7.  When the configuration fails validation, \<open>ApplyToVM\<close> returns the validation
  error wrapped as an invalid configuration and has issued no call on the client.  When
  validation and staging on the host succeed and the client call number \<open>i\<close> of the
  installation sequence is the first to fail, \<open>ApplyToVM\<close> returns that call's error
  wrapped under the label of step \<open>i\<close>, having issued exactly the calls up to and
  including it; the labels of the steps are pairwise different.
\<close>

theorem ApplyToVM_atomic_and_step_errors:
  "(ValidateConfig (Some bad) = Some verr \<longrightarrow>
      ApplyToVM mp host vmName (Some bad) = (Some (InvalidNetworkConfig verr), [])) \<and>
   (ValidateConfig (Some config) = None \<and> host_ok host config tmpDir \<and>
    i < length (install_steps vmName tmpDir) \<and>
    (\<forall>j<i. \<exists>out. mp (map fst (take j (install_steps vmName tmpDir)))
                     (fst (install_steps vmName tmpDir ! j)) = Inr out) \<and>
    mp (map fst (take i (install_steps vmName tmpDir)))
       (fst (install_steps vmName tmpDir ! i)) = Inl e \<longrightarrow>
      ApplyToVM mp host vmName (Some config) =
        (Some (StepFailed (snd (install_steps vmName tmpDir ! i)) e),
         map fst (take (Suc i) (install_steps vmName tmpDir)))) \<and>
   distinct (map snd (install_steps vmName tmpDir))"
proof (intro conjI impI)
  assume "ValidateConfig (Some bad) = Some verr"
  then show "ApplyToVM mp host vmName (Some bad) = (Some (InvalidNetworkConfig verr), [])"
    by (simp add: ApplyToVM_def)
next
  assume h: "ValidateConfig (Some config) = None \<and> host_ok host config tmpDir \<and>
    i < length (install_steps vmName tmpDir) \<and>
    (\<forall>j<i. \<exists>out. mp (map fst (take j (install_steps vmName tmpDir)))
                     (fst (install_steps vmName tmpDir ! j)) = Inr out) \<and>
    mp (map fst (take i (install_steps vmName tmpDir)))
       (fst (install_steps vmName tmpDir ! i)) = Inl e"
  then have "ApplyToVM mp host vmName (Some config) =
      run_steps mp (install_steps vmName tmpDir) []"
    by (simp add: ApplyToVM_run_steps)
  also have "\<dots> = (Some (StepFailed (snd (install_steps vmName tmpDir ! i)) e),
         [] @ map fst (take (Suc i) (install_steps vmName tmpDir)))"
    using h by (intro run_steps_first_failure) simp_all
  finally show "ApplyToVM mp host vmName (Some config) =
        (Some (StepFailed (snd (install_steps vmName tmpDir ! i)) e),
         map fst (take (Suc i) (install_steps vmName tmpDir)))" by simp
next
  show "distinct (map snd (install_steps vmName tmpDir))"
    by (simp add: install_steps_def)
qed

text \<open>
  An invalid address aborts the apply with an empty call list; a failing transfer of the
  descriptor is reported under its own label after the directory was created.
\<close>

theorem ApplyToVM_atomic_and_step_errors_witness:
  "ApplyToVM
     (\<lambda>issued call. if call = Transfer ''/tmp/d/config.json'' ''alpha:/tmp/dabbi-config.json''
                  then Inl ''boom'' else Inr '''')
     \<lparr>generateIptablesScript = (\<lambda>c. Inr ''#!/bin/bash''), mkdirTemp = Inr ''/tmp/d'',
      marshalIndent = (\<lambda>c. Inr ''{}''), writeFile = (\<lambda>path data perm. None)\<rparr>
     ''alpha''
     (Some \<lparr>Mode = ''allowlist'', Rules = [\<lparr>Type = ''ip'', Value = ''256.0.0.1'', Comment = ''''\<rparr>]\<rparr>)
   = (Some (InvalidNetworkConfig (RuleError 1 (InvalidIP ''256.0.0.1''))), []) \<and>
   ApplyToVM
     (\<lambda>issued call. if call = Transfer ''/tmp/d/config.json'' ''alpha:/tmp/dabbi-config.json''
                  then Inl ''boom'' else Inr '''')
     \<lparr>generateIptablesScript = (\<lambda>c. Inr ''#!/bin/bash''), mkdirTemp = Inr ''/tmp/d'',
      marshalIndent = (\<lambda>c. Inr ''{}''), writeFile = (\<lambda>path data perm. None)\<rparr>
     ''alpha''
     (Some \<lparr>Mode = ''isolated'', Rules = []\<rparr>)
   = (Some (StepFailed ''failed to transfer config'' ''boom''),
      [Exec ''alpha'' [''sudo'', ''mkdir'', ''-p'', ''/opt/dabbi/network''],
       Transfer ''/tmp/d/config.json'' ''alpha:/tmp/dabbi-config.json''])"
proof -
  have bad: "ValidateConfig (Some \<lparr>Mode = ''allowlist'',
      Rules = [\<lparr>Type = ''ip'', Value = ''256.0.0.1'', Comment = ''''\<rparr>]\<rparr>)
    = Some (RuleError 1 (InvalidIP ''256.0.0.1''))"
    by code_simp
  have ok: "ValidateConfig (Some \<lparr>Mode = ''isolated'', Rules = []\<rparr>) = None"
    by code_simp
  have host: "host_ok \<lparr>generateIptablesScript = (\<lambda>c. Inr ''#!/bin/bash''), mkdirTemp = Inr ''/tmp/d'',
      marshalIndent = (\<lambda>c. Inr ''{}''), writeFile = (\<lambda>path data perm. None)\<rparr>
      \<lparr>Mode = ''isolated'', Rules = []\<rparr> ''/tmp/d''"
    by (simp add: host_ok_def)
  show ?thesis
    using bad ok host
      ApplyToVM_atomic_and_step_errors
        [of "\<lparr>Mode = ''allowlist'', Rules = [\<lparr>Type = ''ip'', Value = ''256.0.0.1'', Comment = ''''\<rparr>]\<rparr>"
            "RuleError 1 (InvalidIP ''256.0.0.1'')"
            "\<lambda>issued call. if call = Transfer ''/tmp/d/config.json'' ''alpha:/tmp/dabbi-config.json''
                  then Inl ''boom'' else Inr ''''"
            "\<lparr>generateIptablesScript = (\<lambda>c. Inr ''#!/bin/bash''), mkdirTemp = Inr ''/tmp/d'',
              marshalIndent = (\<lambda>c. Inr ''{}''), writeFile = (\<lambda>path data perm. None)\<rparr>"
            "''alpha''"
            "\<lparr>Mode = ''isolated'', Rules = []\<rparr>" "''/tmp/d''" 1 "''boom''"]
    by (simp add: install_steps_def vmNetworkDir_def)
qed

text \<open>
  C10.  For a configuration whose mode is \<open>none\<close> or \<open>isolated\<close>, \<open>ValidateConfig\<close>
  succeeds whatever the rules list holds, \<open>ApplyToVM\<close> never reports an invalid
  configuration, and once staging on the host succeeds it starts the installation with
  the creation of the policy directory in the VM.
\<close>

theorem none_isolated_skip_rules:
  "Mode cfg = NetworkModeNone \<or> Mode cfg = NetworkModeIsolated \<Longrightarrow>
     ValidateConfig (Some cfg) = None \<and>
     (\<forall>verr. fst (ApplyToVM mp host vmName (Some cfg)) \<noteq> Some (InvalidNetworkConfig verr)) \<and>
     (host_ok host cfg tmpDir \<longrightarrow>
        (\<exists>rest. snd (ApplyToVM mp host vmName (Some cfg)) =
           Exec vmName [''sudo'', ''mkdir'', ''-p'', vmNetworkDir] # rest))"
proof -
  assume m: "Mode cfg = NetworkModeNone \<or> Mode cfg = NetworkModeIsolated"
  then have v: "ValidateConfig (Some cfg) = None"
    by (auto simp: ValidateConfig_def)
  have e: "\<forall>verr. fst (ApplyToVM mp host vmName (Some cfg)) \<noteq> Some (InvalidNetworkConfig verr)"
    using v
    by (auto simp: ApplyToVM_def Let_def mp_step_def split: sum.splits option.splits)
  have p: "host_ok host cfg tmpDir \<longrightarrow>
        (\<exists>rest. snd (ApplyToVM mp host vmName (Some cfg)) =
           Exec vmName [''sudo'', ''mkdir'', ''-p'', vmNetworkDir] # rest)"
  proof
    assume "host_ok host cfg tmpDir"
    with v have "ApplyToVM mp host vmName (Some cfg) =
      run_steps mp (install_steps vmName tmpDir) []"
      by (rule ApplyToVM_run_steps)
    then show "\<exists>rest. snd (ApplyToVM mp host vmName (Some cfg)) =
           Exec vmName [''sudo'', ''mkdir'', ''-p'', vmNetworkDir] # rest"
      using run_steps_first_call [of mp "Exec vmName [''sudo'', ''mkdir'', ''-p'', vmNetworkDir]"]
      by (simp add: install_steps_def)
  qed
  from v e p show ?thesis by blast
qed

text \<open>
  The address \<open>999.0.0.1\<close> is rejected under allowlist mode and ignored under mode
  \<open>none\<close>, where the installation proceeds.
\<close>

theorem none_isolated_skip_rules_witness:
  "validateRule \<lparr>Type = ''ip'', Value = ''999.0.0.1'', Comment = ''''\<rparr>
     = Some (InvalidIP ''999.0.0.1'') \<and>
   ValidateConfig (Some \<lparr>Mode = ''allowlist'',
     Rules = [\<lparr>Type = ''ip'', Value = ''999.0.0.1'', Comment = ''''\<rparr>]\<rparr>) \<noteq> None \<and>
   ValidateConfig (Some \<lparr>Mode = ''none'',
     Rules = [\<lparr>Type = ''ip'', Value = ''999.0.0.1'', Comment = ''''\<rparr>]\<rparr>) = None \<and>
   (\<exists>rest. snd (ApplyToVM (\<lambda>issued call. Inr '''')
      \<lparr>generateIptablesScript = (\<lambda>c. Inr ''#!/bin/bash''), mkdirTemp = Inr ''/tmp/d'',
       marshalIndent = (\<lambda>c. Inr ''{}''), writeFile = (\<lambda>path data perm. None)\<rparr>
      ''alpha''
      (Some \<lparr>Mode = ''none'',
         Rules = [\<lparr>Type = ''ip'', Value = ''999.0.0.1'', Comment = ''''\<rparr>]\<rparr>)) =
      Exec ''alpha'' [''sudo'', ''mkdir'', ''-p'', ''/opt/dabbi/network''] # rest)"
proof -
  have a: "validateRule \<lparr>Type = ''ip'', Value = ''999.0.0.1'', Comment = ''''\<rparr>
     = Some (InvalidIP ''999.0.0.1'')" by code_simp
  have b: "ValidateConfig (Some \<lparr>Mode = ''allowlist'',
     Rules = [\<lparr>Type = ''ip'', Value = ''999.0.0.1'', Comment = ''''\<rparr>]\<rparr>) \<noteq> None" by code_simp
  have host: "host_ok \<lparr>generateIptablesScript = (\<lambda>c. Inr ''#!/bin/bash''), mkdirTemp = Inr ''/tmp/d'',
      marshalIndent = (\<lambda>c. Inr ''{}''), writeFile = (\<lambda>path data perm. None)\<rparr>
      \<lparr>Mode = ''none'', Rules = [\<lparr>Type = ''ip'', Value = ''999.0.0.1'', Comment = ''''\<rparr>]\<rparr> ''/tmp/d''"
    by (simp add: host_ok_def)
  show ?thesis
    using a b host
      none_isolated_skip_rules
        [of "\<lparr>Mode = ''none'', Rules = [\<lparr>Type = ''ip'', Value = ''999.0.0.1'', Comment = ''''\<rparr>]\<rparr>"
            "\<lambda>issued call. Inr ''''"
            "\<lparr>generateIptablesScript = (\<lambda>c. Inr ''#!/bin/bash''), mkdirTemp = Inr ''/tmp/d'',
              marshalIndent = (\<lambda>c. Inr ''{}''), writeFile = (\<lambda>path data perm. None)\<rparr>"
            "''alpha''" "''/tmp/d''"]
    by (simp add: NetworkModeNone_def vmNetworkDir_def)
qed

section \<open>Trimming white space\<close>

text \<open>
  \<open>strings.TrimSpace\<close> removes leading and trailing white space as Unicode defines it.
  On the bytes of a UTF-8 string these are the six ASCII characters tab, line feed,
  vertical tab, form feed, carriage return and space, the two-byte encodings of U+0085
  and U+00A0, and the three-byte encodings of U+1680, U+2000 to U+200A, U+2028, U+2029,
  U+202F, U+205F and U+3000.
\<close>

definition asciiSpace :: "char \<Rightarrow> bool" where
  "asciiSpace c \<longleftrightarrow> c \<in> {CHR 0x09, CHR 0x0A, CHR 0x0B, CHR 0x0C, CHR 0x0D, CHR 0x20}"

definition space2 :: "char \<Rightarrow> char \<Rightarrow> bool" where
  "space2 b1 b2 \<longleftrightarrow> b1 = CHR 0xC2 \<and> (b2 = CHR 0x85 \<or> b2 = CHR 0xA0)"

definition space3 :: "char \<Rightarrow> char \<Rightarrow> char \<Rightarrow> bool" where
  "space3 b1 b2 b3 \<longleftrightarrow>
     (b1 = CHR 0xE1 \<and> b2 = CHR 0x9A \<and> b3 = CHR 0x80) \<or>
     (b1 = CHR 0xE2 \<and> b2 = CHR 0x80 \<and>
        ((0x80 \<le> (of_char b3 :: nat) \<and> (of_char b3 :: nat) \<le> 0x8A) \<or>
         b3 = CHR 0xA8 \<or> b3 = CHR 0xA9 \<or> b3 = CHR 0xAF)) \<or>
     (b1 = CHR 0xE2 \<and> b2 = CHR 0x81 \<and> b3 = CHR 0x9F) \<or>
     (b1 = CHR 0xE3 \<and> b2 = CHR 0x80 \<and> b3 = CHR 0x80)"

fun trimLeft :: "string \<Rightarrow> string" where
  "trimLeft [] = []"
| "trimLeft (b1 # bs) =
     (if asciiSpace b1 then trimLeft bs
      else (case bs of
              [] \<Rightarrow> b1 # bs
            | b2 # bs2 \<Rightarrow>
                if space2 b1 b2 then trimLeft bs2
                else (case bs2 of
                        [] \<Rightarrow> b1 # bs
                      | b3 # bs3 \<Rightarrow>
                          if space3 b1 b2 b3 then trimLeft bs3 else b1 # bs)))"

text \<open>The same from the end, on the reversed string: the last byte comes first.\<close>

fun trimRightRev :: "string \<Rightarrow> string" where
  "trimRightRev [] = []"
| "trimRightRev (b1 # bs) =
     (if asciiSpace b1 then trimRightRev bs
      else (case bs of
              [] \<Rightarrow> b1 # bs
            | b2 # bs2 \<Rightarrow>
                if space2 b2 b1 then trimRightRev bs2
                else (case bs2 of
                        [] \<Rightarrow> b1 # bs
                      | b3 # bs3 \<Rightarrow>
                          if space3 b3 b2 b1 then trimRightRev bs3 else b1 # bs)))"

definition TrimSpace :: "string \<Rightarrow> string" where
  "TrimSpace s = rev (trimRightRev (rev (trimLeft s)))"

section \<open>Reading the policy back (Applier.GetCurrentConfig)\<close>

text \<open>
  \<open>json.Unmarshal\<close> into a \<open>NetworkConfig\<close> is a parameter: the error's text or the
  decoded configuration.  The list \<open>issued\<close> holds the calls issued on the client before.
\<close>

definition GetCurrentConfig ::
  "mp_client \<Rightarrow> mp_call list \<Rightarrow> (string \<Rightarrow> string + NetworkConfig) \<Rightarrow> string \<Rightarrow>
     apply_error + NetworkConfig option" where
  "GetCurrentConfig mp issued unmarshal vmName =
     (case mp issued (Exec vmName [''cat'', vmConfigFile]) of
        Inl err \<Rightarrow>
          if Contains err ''No such file'' then Inr None
          else Inl (StepFailed ''failed to read config from VM'' err)
      | Inr out \<Rightarrow>
          (let output = TrimSpace out in
           if output = [] then Inr None
           else (case unmarshal output of
                   Inl err \<Rightarrow> Inl (StepFailed ''failed to parse config'' err)
                 | Inr config \<Rightarrow> Inr (Some config))))"

section \<open>Merging the network section into cloud-init (package config)\<close>

text \<open>
  The loop of \<open>appendToCloudInit\<close> over the lines, with its three variables
  \<open>result\<close>, \<open>inRuncmd\<close> and \<open>inserted\<close> as the state.
\<close>

fun appendLoop ::
  "string \<Rightarrow> string list \<Rightarrow> string list \<times> bool \<times> bool \<Rightarrow> string list \<times> bool \<times> bool" where
  "appendLoop networkSection [] st = st"
| "appendLoop networkSection (line # lines) (result, inRuncmd, inserted) =
     (if HasPrefix (TrimSpace line) ''runcmd:'' then
        appendLoop networkSection lines (result @ [line], True, inserted)
      else if inRuncmd then
        (let trimmed = TrimSpace line in
         if length trimmed > 0 \<and> \<not> HasPrefix trimmed ''-'' \<and> \<not> HasPrefix trimmed ''#'' \<and>
            \<not> HasPrefix line '' '' \<and> \<not> HasPrefix line [CHR 0x09] then
           (if \<not> inserted then
              appendLoop networkSection lines (result @ [networkSection] @ [line], False, True)
            else
              appendLoop networkSection lines (result @ [line], False, inserted))
         else
           appendLoop networkSection lines (result @ [line], inRuncmd, inserted))
      else
        appendLoop networkSection lines (result @ [line], inRuncmd, inserted))"

definition appendToCloudInit :: "string \<Rightarrow> string \<Rightarrow> string" where
  "appendToCloudInit base networkSection =
     (let lines = Split base CHR 0x0A in
      case appendLoop networkSection lines ([], False, False) of
        (result, inRuncmd, inserted) \<Rightarrow>
          (let result1 = (if inRuncmd \<and> \<not> inserted then result @ [networkSection] else result);
               result2 = (if \<not> inserted then result1 @ [[CHR 0x0A] @ ''runcmd:''] @ [networkSection]
                          else result1)
           in Join result2 [CHR 0x0A]))"


section \<open>TCP tunnels (package tunnel)\<close>

text \<open>The fields of \<open>multipass.InstanceInfo\<close> that the daemon's decisions read.\<close>

record InstanceInfo =
  State :: string
  IPv4 :: "string list"

definition StateRunning :: string where "StateRunning = ''Running''"
definition StateStopped :: string where "StateStopped = ''Stopped''"
definition StateSuspended :: string where "StateSuspended = ''Suspended''"
definition StateDeleted :: string where "StateDeleted = ''Deleted''"

text \<open>
  A tunnel record.  Its listener is the one bound to \<open>HostPort\<close>, and its \<open>done\<close>
  channel belongs to the accept loop serving that listener.
\<close>

record Tunnel =
  HostPort :: int
  VMName :: string
  VMPort :: int
  vmIP :: string

text \<open>
  The manager's record map, together with the resources its tunnels own: the host ports
  with an open listener and the host ports whose accept loop has an open \<open>done\<close>
  channel.
\<close>

record Manager =
  tunnels :: "int \<rightharpoonup> Tunnel"
  listeners :: "int set"
  serving :: "int set"

datatype tunnel_error =
    FailedGetVMInfo string
  | VMNotRunning string string
  | VMNoIPAddress
  | FailedCreateListener string
  | TunnelNotFound int

text \<open>
  The message of each error as \<open>fmt.Errorf\<close> formats it.  The verb \<open>%q\<close> writes
  its argument between double quotes with the body escaped by \<open>quoteBody\<close>, and
  \<open>%d\<close> writes the decimal numeral \<open>decimal\<close>; both are parameters.
\<close>

fun tunnel_error_text :: "(string \<Rightarrow> string) \<Rightarrow> (int \<Rightarrow> string) \<Rightarrow> tunnel_error \<Rightarrow> string" where
  "tunnel_error_text quoteBody decimal (FailedGetVMInfo err) = ''failed to get VM info: '' @ err"
| "tunnel_error_text quoteBody decimal (VMNotRunning vmName state) =
     ''VM '' @ [CHR 0x22] @ quoteBody vmName @ [CHR 0x22] @ '' is not running (state: '' @ state @ '')''"
| "tunnel_error_text quoteBody decimal VMNoIPAddress = ''VM has no IP address''"
| "tunnel_error_text quoteBody decimal (FailedCreateListener err) = ''failed to create listener: '' @ err"
| "tunnel_error_text quoteBody decimal (TunnelNotFound hostPort) = ''tunnel not found: '' @ decimal hostPort"

text \<open>
  \<open>Manager.Create\<close>.  \<open>Info\<close> is the client's operation; \<open>Listen\<close> is the outcome of
  \<open>net.Listen("tcp", ":0")\<close>: an error's text or the port the kernel assigned.
\<close>

definition Create ::
  "(string \<Rightarrow> string + InstanceInfo) \<Rightarrow> string + int \<Rightarrow> string \<Rightarrow> int \<Rightarrow> Manager \<Rightarrow>
     (tunnel_error + Tunnel) \<times> Manager" where
  "Create Info Listen vmName vmPort m =
     (case Info vmName of
        Inl err \<Rightarrow> (Inl (FailedGetVMInfo err), m)
      | Inr info \<Rightarrow>
          if State info \<noteq> StateRunning then (Inl (VMNotRunning vmName (State info)), m)
          else if length (IPv4 info) = 0 then (Inl VMNoIPAddress, m)
          else
            (let ip = IPv4 info ! 0 in
             case Listen of
               Inl err \<Rightarrow> (Inl (FailedCreateListener err), m)
             | Inr hostPort \<Rightarrow>
                 (let tunnel = \<lparr>HostPort = hostPort, VMName = vmName, VMPort = vmPort, vmIP = ip\<rparr>
                  in (Inr tunnel,
                      m\<lparr>listeners := insert hostPort (listeners m),
                        serving := insert hostPort (serving m),
                        tunnels := (tunnels m)(hostPort \<mapsto> tunnel)\<rparr>))))"

text \<open>\<open>Manager.Delete\<close>: the returned error is \<open>None\<close> for nil.\<close>

definition Delete :: "int \<Rightarrow> Manager \<Rightarrow> tunnel_error option \<times> Manager" where
  "Delete hostPort m =
     (case tunnels m hostPort of
        None \<Rightarrow> (Some (TunnelNotFound hostPort), m)
      | Some tunnel \<Rightarrow>
          (None,
           m\<lparr>tunnels := (tunnels m)(hostPort := None),
             serving := serving m - {HostPort tunnel},
             listeners := listeners m - {HostPort tunnel}\<rparr>))"

section \<open>Properties of prefix and substring tests\<close>

lemma HasPrefix_iff: "HasPrefix s p \<longleftrightarrow> (\<exists>b. s = p @ b)"
  by (induction s p rule: HasPrefix.induct) auto

lemma Contains_iff: "Contains s sub \<longleftrightarrow> (\<exists>a b. s = a @ sub @ b)"
proof (induction s)
  case Nil
  then show ?case by auto
next
  case (Cons c cs)
  show ?case
  proof
    assume "Contains (c # cs) sub"
    then consider "HasPrefix (c # cs) sub" | "Contains cs sub" by auto
    then show "\<exists>a b. c # cs = a @ sub @ b"
    proof cases
      case 1
      then obtain b where "c # cs = sub @ b" by (auto simp: HasPrefix_iff)
      then have "c # cs = [] @ sub @ b" by simp
      then show ?thesis by blast
    next
      case 2
      with Cons obtain a b where "cs = a @ sub @ b" by blast
      then have "c # cs = (c # a) @ sub @ b" by simp
      then show ?thesis by blast
    qed
  next
    assume "\<exists>a b. c # cs = a @ sub @ b"
    then obtain a b where ab: "c # cs = a @ sub @ b" by blast
    show "Contains (c # cs) sub"
    proof (cases a)
      case Nil
      with ab have "HasPrefix (c # cs) sub" by (auto simp: HasPrefix_iff)
      then show ?thesis by simp
    next
      case (Cons x a')
      with ab have "cs = a' @ sub @ b" by simp
      then have "Contains cs sub" using Cons.IH by blast
      then show ?thesis by simp
    qed
  qed
qed

section \<open>Claim about reading the policy back\<close>

text \<open>
  C9.  \<open>GetCurrentConfig\<close> runs \<open>cat /opt/dabbi/network/config.json\<close> in the VM.
  When the read fails with an error whose text contains \<open>No such file\<close> it returns no
  policy and no error; any other read failure is returned as an error wrapping it; a
  successful read of a non-blank descriptor that decodes returns the decoded policy.
\<close>

theorem GetCurrentConfig_absence:
  "(mp1 log1 (Exec vm1 [''cat'', ''/opt/dabbi/network/config.json'']) = Inl err1 \<and>
    (\<exists>a b. err1 = a @ ''No such file'' @ b) \<longrightarrow>
      GetCurrentConfig mp1 log1 unmarshal vm1 = Inr None) \<and>
   (mp2 log2 (Exec vm2 [''cat'', ''/opt/dabbi/network/config.json'']) = Inl err2 \<and>
    \<not> (\<exists>a b. err2 = a @ ''No such file'' @ b) \<longrightarrow>
      GetCurrentConfig mp2 log2 unmarshal vm2 =
        Inl (StepFailed ''failed to read config from VM'' err2)) \<and>
   (mp3 log3 (Exec vm3 [''cat'', ''/opt/dabbi/network/config.json'']) = Inr out \<and>
    TrimSpace out \<noteq> [] \<and> unmarshal (TrimSpace out) = Inr config \<longrightarrow>
      GetCurrentConfig mp3 log3 unmarshal vm3 = Inr (Some config))"
  by (simp add: GetCurrentConfig_def vmConfigFile_def Contains_iff)

text \<open>A missing file, a VM that is not running, and a stored descriptor.\<close>

theorem GetCurrentConfig_absence_witness:
  "GetCurrentConfig
     (\<lambda>issued call. Inl (''multipass command failed: multipass exec alpha -- cat /opt/dabbi/network/config.json''
        @ [CHR 0x0A] @ ''stderr: cat: /opt/dabbi/network/config.json: No such file or directory''))
     [] (\<lambda>text. Inr \<lparr>Mode = ''isolated'', Rules = []\<rparr>) ''alpha'' = Inr None \<and>
   GetCurrentConfig (\<lambda>issued call. Inl ''instance is not running'')
     [] (\<lambda>text. Inr \<lparr>Mode = ''isolated'', Rules = []\<rparr>) ''beta''
     = Inl (StepFailed ''failed to read config from VM'' ''instance is not running'') \<and>
   GetCurrentConfig (\<lambda>issued call. Inr (''{\"mode\":\"isolated\"}'' @ [CHR 0x0A]))
     [] (\<lambda>text. Inr \<lparr>Mode = ''isolated'', Rules = []\<rparr>) ''gamma''
     = Inr (Some \<lparr>Mode = ''isolated'', Rules = []\<rparr>)"
proof -
  have c1: "Contains (''multipass command failed: multipass exec alpha -- cat /opt/dabbi/network/config.json''
        @ [CHR 0x0A] @ ''stderr: cat: /opt/dabbi/network/config.json: No such file or directory'')
        ''No such file''"
    by code_simp
  have c2: "\<not> Contains ''instance is not running'' ''No such file''"
    by code_simp
  have c3: "TrimSpace (''{\"mode\":\"isolated\"}'' @ [CHR 0x0A]) = ''{\"mode\":\"isolated\"}''"
    by code_simp
  show ?thesis
    using c1 c2 c3
      GetCurrentConfig_absence
        [of "\<lambda>issued call. Inl (''multipass command failed: multipass exec alpha -- cat /opt/dabbi/network/config.json''
              @ [CHR 0x0A] @ ''stderr: cat: /opt/dabbi/network/config.json: No such file or directory'')"
            "[]" "''alpha''"
            "''multipass command failed: multipass exec alpha -- cat /opt/dabbi/network/config.json''
              @ [CHR 0x0A] @ ''stderr: cat: /opt/dabbi/network/config.json: No such file or directory''"
            "\<lambda>text. Inr \<lparr>Mode = ''isolated'', Rules = []\<rparr>"
            "\<lambda>issued call. Inl ''instance is not running''" "[]" "''beta''" "''instance is not running''"
            "\<lambda>issued call. Inr (''{\"mode\":\"isolated\"}'' @ [CHR 0x0A])" "[]" "''gamma''"
            "''{\"mode\":\"isolated\"}'' @ [CHR 0x0A]" "\<lparr>Mode = ''isolated'', Rules = []\<rparr>"]
    unfolding Contains_iff by simp
qed

section \<open>Claim about the cloud-init merge\<close>

text \<open>
  C5.  The claim asks for the network section to appear exactly once, inside the first
  \<open>runcmd\<close> block.  On a document whose \<open>runcmd\<close> block runs to the end of the
  file, \<open>appendToCloudInit\<close> appends the section at the end of that block and then,
  because \<open>inserted\<close> is still false, appends a second \<open>runcmd:\<close> header followed
  by the section again: for every section text \<open>ns\<close> the output below holds it twice.
\<close>

theorem appendToCloudInit_runcmd_last_duplicates:
  "appendToCloudInit
     (''#cloud-config'' @ [CHR 0x0A] @ ''runcmd:'' @ [CHR 0x0A] @ ''  - echo hi'') ns
   = ''#cloud-config'' @ [CHR 0x0A] @ ''runcmd:'' @ [CHR 0x0A] @ ''  - echo hi'' @ [CHR 0x0A] @
     ns @ [CHR 0x0A] @ [CHR 0x0A] @ ''runcmd:'' @ [CHR 0x0A] @ ns"
proof -
  have t1: "TrimSpace ''#cloud-config'' = ''#cloud-config''" by code_simp
  have t2: "TrimSpace ''runcmd:'' = ''runcmd:''" by code_simp
  have t3: "TrimSpace ''  - echo hi'' = ''- echo hi''" by code_simp
  have s: "Split (''#cloud-config'' @ [CHR 0x0A] @ ''runcmd:'' @ [CHR 0x0A] @ ''  - echo hi'') CHR 0x0A
    = [''#cloud-config'', ''runcmd:'', ''  - echo hi'']" by code_simp
  show ?thesis
    unfolding appendToCloudInit_def s Let_def
    by (simp add: t1 t2 t3)
qed

section \<open>Claim about tunnels\<close>

text \<open>
  C8.  \<open>Create\<close> returns an error and leaves the manager, its listeners and its accept
  loops unchanged when \<open>Info\<close> fails, when the VM is not in state \<open>Running\<close>, and
  when the VM has no IPv4 address; the messages of these three errors are pairwise
  different whatever their arguments.  \<open>Delete\<close> of a recorded host port returns no
  error, removes the record, closes the tunnel's listener and ends its accept loop, and a
  second \<open>Delete\<close> of that port returns the not-found error and changes nothing;
  \<open>Delete\<close> of a host port without a record returns the not-found error and changes
  nothing.
\<close>

theorem tunnel_create_delete_contract:
  "(Info vmName = Inl err \<longrightarrow>
      Create Info Listen vmName vmPort m = (Inl (FailedGetVMInfo err), m)) \<and>
   (Info2 vmName = Inr info2 \<and> State info2 \<noteq> ''Running'' \<longrightarrow>
      Create Info2 Listen vmName vmPort m = (Inl (VMNotRunning vmName (State info2)), m)) \<and>
   (Info3 vmName = Inr info3 \<and> State info3 = ''Running'' \<and> IPv4 info3 = [] \<longrightarrow>
      Create Info3 Listen vmName vmPort m = (Inl VMNoIPAddress, m)) \<and>
   tunnel_error_text q d (FailedGetVMInfo err) \<noteq> tunnel_error_text q d (VMNotRunning vmName st) \<and>
   tunnel_error_text q d (FailedGetVMInfo err) \<noteq> tunnel_error_text q d VMNoIPAddress \<and>
   tunnel_error_text q d (VMNotRunning vmName st) \<noteq> tunnel_error_text q d VMNoIPAddress \<and>
   (tunnels m1 hostPort = Some t \<longrightarrow>
      fst (Delete hostPort m1) = None \<and>
      tunnels (snd (Delete hostPort m1)) = (tunnels m1)(hostPort := None) \<and>
      listeners (snd (Delete hostPort m1)) = listeners m1 - {HostPort t} \<and>
      serving (snd (Delete hostPort m1)) = serving m1 - {HostPort t} \<and>
      Delete hostPort (snd (Delete hostPort m1)) =
        (Some (TunnelNotFound hostPort), snd (Delete hostPort m1))) \<and>
   (tunnels m2 hostPort = None \<longrightarrow> Delete hostPort m2 = (Some (TunnelNotFound hostPort), m2))"
  by (auto simp: Create_def Delete_def StateRunning_def)

text \<open>The three refusals of \<open>Create\<close> and a repeated \<open>Delete\<close> on concrete managers.\<close>

theorem tunnel_create_delete_contract_witness:
  "Create (\<lambda>name. Inl ''instance does not exist'') (Inr 40001) ''ghost'' 5432
     \<lparr>tunnels = Map.empty, listeners = {}, serving = {}\<rparr>
     = (Inl (FailedGetVMInfo ''instance does not exist''),
        \<lparr>tunnels = Map.empty, listeners = {}, serving = {}\<rparr>) \<and>
   Create (\<lambda>name. Inr \<lparr>State = ''Stopped'', IPv4 = []\<rparr>) (Inr 40001) ''ghost'' 5432
     \<lparr>tunnels = Map.empty, listeners = {}, serving = {}\<rparr>
     = (Inl (VMNotRunning ''ghost'' ''Stopped''),
        \<lparr>tunnels = Map.empty, listeners = {}, serving = {}\<rparr>) \<and>
   Create (\<lambda>name. Inr \<lparr>State = ''Running'', IPv4 = []\<rparr>) (Inr 40001) ''ghost'' 5432
     \<lparr>tunnels = Map.empty, listeners = {}, serving = {}\<rparr>
     = (Inl VMNoIPAddress, \<lparr>tunnels = Map.empty, listeners = {}, serving = {}\<rparr>) \<and>
   fst (Delete 40001
     \<lparr>tunnels = [40001 \<mapsto> \<lparr>HostPort = 40001, VMName = ''alpha'', VMPort = 5432, vmIP = ''10.0.0.5''\<rparr>],
      listeners = {40001}, serving = {40001}\<rparr>) = None \<and>
   listeners (snd (Delete 40001
     \<lparr>tunnels = [40001 \<mapsto> \<lparr>HostPort = 40001, VMName = ''alpha'', VMPort = 5432, vmIP = ''10.0.0.5''\<rparr>],
      listeners = {40001}, serving = {40001}\<rparr>)) = {} \<and>
   fst (Delete 40001 (snd (Delete 40001
     \<lparr>tunnels = [40001 \<mapsto> \<lparr>HostPort = 40001, VMName = ''alpha'', VMPort = 5432, vmIP = ''10.0.0.5''\<rparr>],
      listeners = {40001}, serving = {40001}\<rparr>))) = Some (TunnelNotFound 40001) \<and>
   Delete 40001 \<lparr>tunnels = Map.empty, listeners = {}, serving = {}\<rparr>
     = (Some (TunnelNotFound 40001), \<lparr>tunnels = Map.empty, listeners = {}, serving = {}\<rparr>)"
  using tunnel_create_delete_contract
    [of "\<lambda>name. Inl ''instance does not exist''" "''ghost''" "''instance does not exist''"
        "Inr 40001" 5432 "\<lparr>tunnels = Map.empty, listeners = {}, serving = {}\<rparr>"
        "\<lambda>name. Inr \<lparr>State = ''Stopped'', IPv4 = []\<rparr>" "\<lparr>State = ''Stopped'', IPv4 = []\<rparr>"
        "\<lambda>name. Inr \<lparr>State = ''Running'', IPv4 = []\<rparr>" "\<lparr>State = ''Running'', IPv4 = []\<rparr>"
        "\<lambda>s. s" "\<lambda>i. []" "''Stopped''"
        "\<lparr>tunnels = [40001 \<mapsto> \<lparr>HostPort = 40001, VMName = ''alpha'', VMPort = 5432, vmIP = ''10.0.0.5''\<rparr>],
          listeners = {40001}, serving = {40001}\<rparr>"
        40001 "\<lparr>HostPort = 40001, VMName = ''alpha'', VMPort = 5432, vmIP = ''10.0.0.5''\<rparr>"
        "\<lparr>tunnels = Map.empty, listeners = {}, serving = {}\<rparr>"]
  by simp

section \<open>Reverse proxy to a running VM (package proxy)\<close>

text \<open>Decimal formatting of an integer, as the verb \<open>%d\<close> of \<open>fmt.Sprintf\<close> writes it.\<close>

fun natDecimal :: "nat \<Rightarrow> string" where
  "natDecimal n =
     (if n < 10 then [char_of (of_char CHR ''0'' + n)]
      else natDecimal (n div 10) @ [char_of (of_char CHR ''0'' + n mod 10)])"

definition fmtDecimal :: "int \<Rightarrow> string" where
  "fmtDecimal i = (if i < 0 then ''-'' @ natDecimal (nat (- i)) else natDecimal (nat i))"

text \<open>
  The parts of \<open>http.Request\<close> the router reads and writes: the \<open>Host\<close> field, the
  header map (canonical key to values) and whether the connection came in over TLS
  (\<open>req.TLS != nil\<close>).  \<open>Header.Get\<close> returns the first value or the empty string,
  \<open>Header.Set\<close> replaces the values by one.
\<close>

record Request =
  Host :: string
  Header :: "string \<rightharpoonup> string list"
  TLS :: bool

definition Header_Get :: "(string \<rightharpoonup> string list) \<Rightarrow> string \<Rightarrow> string" where
  "Header_Get h key = (case h key of None \<Rightarrow> [] | Some [] \<Rightarrow> [] | Some (v # vs) \<Rightarrow> v)"

definition Header_Set :: "(string \<rightharpoonup> string list) \<Rightarrow> string \<Rightarrow> string \<Rightarrow> (string \<rightharpoonup> string list)" where
  "Header_Set h key v = h(key \<mapsto> [v])"

record Response =
  StatusCode :: nat
  Body :: string

text \<open>\<open>http.Error(w, msg, code)\<close> writes the message and a line feed.\<close>

definition http_Error :: "string \<Rightarrow> nat \<Rightarrow> Response" where
  "http_Error msg code = \<lparr>StatusCode = code, Body = msg @ [CHR 0x0A]\<rparr>"

definition StatusBadGateway :: nat where "StatusBadGateway = 502"
definition StatusInternalServerError :: nat where "StatusInternalServerError = 500"

text \<open>
  The director \<open>proxyRequest\<close> installs.  \<open>originalDirector\<close> is the director of
  \<open>httputil.NewSingleHostReverseProxy(target)\<close>, a parameter.
\<close>

definition Director :: "(Request \<Rightarrow> Request) \<Rightarrow> string \<Rightarrow> Request \<Rightarrow> Request" where
  "Director originalDirector targetHost req0 =
     (let req1 = originalDirector req0;
          req2 = req1\<lparr>Host := targetHost\<rparr>;
          req3 = (if Header_Get (Header req2) ''Upgrade'' \<noteq> []
                  then req2\<lparr>Header := Header_Set (Header req2) ''Connection'' ''Upgrade''\<rparr>
                  else req2);
          req4 = req3\<lparr>Header := Header_Set (Header req3) ''X-Forwarded-Host'' (Host req3)\<rparr>;
          req5 = req4\<lparr>Header := Header_Set (Header req4) ''X-Forwarded-Proto'' ''https''\<rparr>
      in req5)"

text \<open>
  \<open>proxyRequest\<close>.  The environment gives the outcome of \<open>url.Parse\<close> on the target,
  the library's director for the target host, and the transport: the round trip of
  the outgoing request fails with an error's text or yields the upstream response.
  The result is the response written to the client and the request sent upstream, if
  one was sent.
\<close>

record proxy_env =
  urlParseOk :: "string \<Rightarrow> bool"
  originalDirector :: "string \<Rightarrow> Request \<Rightarrow> Request"
  roundTrip :: "Request \<Rightarrow> string + Response"

definition proxyRequest ::
  "proxy_env \<Rightarrow> Request \<Rightarrow> string \<Rightarrow> int \<Rightarrow> Response \<times> Request option" where
  "proxyRequest env req ip port =
     (let targetHost = ip @ '':'' @ fmtDecimal port in
      if \<not> urlParseOk env (''http://'' @ targetHost) then
        (http_Error ''Invalid target URL'' StatusInternalServerError, None)
      else
        (let outreq = Director (originalDirector env targetHost) targetHost req in
         case roundTrip env outreq of
           Inl err \<Rightarrow> (http_Error (''Proxy error: '' @ err) StatusBadGateway, Some outreq)
         | Inr resp \<Rightarrow> (resp, Some outreq)))"

text \<open>
  What the upstream sees of the rewriting: the outgoing \<open>Host\<close> and the two
  forwarding headers.
\<close>

definition forwarded_fields :: "Request \<Rightarrow> string \<times> string \<times> string" where
  "forwarded_fields r =
     (Host r, Header_Get (Header r) ''X-Forwarded-Host'', Header_Get (Header r) ''X-Forwarded-Proto'')"

text \<open>
  An environment for examples: the target parses, the library's director leaves the
  modelled fields alone, and the upstream refuses the connection.
\<close>

definition refusing_env :: proxy_env where
  "refusing_env =
     \<lparr>urlParseOk = (\<lambda>u. True), originalDirector = (\<lambda>target r. r),
      roundTrip = (\<lambda>r. Inl ''connection refused'')\<rparr>"

section \<open>Claim about request rewriting\<close>

text \<open>
  C6 (as amended).  When the target URL parses, \<open>proxyRequest\<close> sends upstream a
  request whose \<open>Host\<close> is the target \<open>ip:port\<close> and whose \<open>X-Forwarded-Proto\<close>
  header is \<open>https\<close>, whether or not the incoming connection used TLS; when the
  round trip fails the client receives status 502 with the proxy error message, and
  otherwise the upstream response.
\<close>

theorem proxy_rewrite_amended:
  "urlParseOk env (''http://'' @ ip @ '':'' @ fmtDecimal port) \<Longrightarrow>
   (\<exists>outreq. snd (proxyRequest env req ip port) = Some outreq \<and>
      Host outreq = ip @ '':'' @ fmtDecimal port \<and>
      Header_Get (Header outreq) ''X-Forwarded-Proto'' = ''https'' \<and>
      (\<forall>err. roundTrip env outreq = Inl err \<longrightarrow>
         fst (proxyRequest env req ip port) = http_Error (''Proxy error: '' @ err) 502) \<and>
      (\<forall>resp. roundTrip env outreq = Inr resp \<longrightarrow>
         fst (proxyRequest env req ip port) = resp))"
  by (auto simp: proxyRequest_def Director_def Let_def Header_Get_def Header_Set_def
      StatusBadGateway_def split: sum.splits)

text \<open>A request over TLS for port 3000 of a VM at 10.0.0.5 that refuses the connection.\<close>

theorem proxy_rewrite_amended_witness:
  "proxyRequest refusing_env \<lparr>Host = ''alpha-3000.localhost'', Header = Map.empty, TLS = True\<rparr>
     ''10.0.0.5'' 3000
   = (\<lparr>StatusCode = 502, Body = ''Proxy error: connection refused'' @ [CHR 0x0A]\<rparr>,
      Some \<lparr>Host = ''10.0.0.5:3000'',
            Header = [''X-Forwarded-Host'' \<mapsto> [''10.0.0.5:3000''],
                      ''X-Forwarded-Proto'' \<mapsto> [''https'']],
            TLS = True\<rparr>)"
proof -
  have d: "fmtDecimal 3000 = ''3000''" by code_simp
  have ok: "urlParseOk refusing_env (''http://'' @ ''10.0.0.5'' @ '':'' @ fmtDecimal 3000)"
    by (simp add: refusing_env_def)
  from proxy_rewrite_amended [OF ok, of "\<lparr>Host = ''alpha-3000.localhost'', Header = Map.empty, TLS = True\<rparr>"]
  obtain outreq where
    o: "snd (proxyRequest refusing_env \<lparr>Host = ''alpha-3000.localhost'', Header = Map.empty, TLS = True\<rparr>
          ''10.0.0.5'' 3000) = Some outreq"
    and f: "\<forall>err. roundTrip refusing_env outreq = Inl err \<longrightarrow>
         fst (proxyRequest refusing_env \<lparr>Host = ''alpha-3000.localhost'', Header = Map.empty, TLS = True\<rparr>
          ''10.0.0.5'' 3000) = http_Error (''Proxy error: '' @ err) 502"
    by blast
  have "roundTrip refusing_env outreq = Inl ''connection refused''"
    by (simp add: refusing_env_def)
  with f have r: "fst (proxyRequest refusing_env \<lparr>Host = ''alpha-3000.localhost'', Header = Map.empty, TLS = True\<rparr>
          ''10.0.0.5'' 3000) = http_Error (''Proxy error: '' @ ''connection refused'') 502"
    by blast
  have s: "snd (proxyRequest refusing_env \<lparr>Host = ''alpha-3000.localhost'', Header = Map.empty, TLS = True\<rparr>
          ''10.0.0.5'' 3000) = Some \<lparr>Host = ''10.0.0.5:3000'',
            Header = [''X-Forwarded-Host'' \<mapsto> [''10.0.0.5:3000''],
                      ''X-Forwarded-Proto'' \<mapsto> [''https'']],
            TLS = True\<rparr>"
    by (simp add: proxyRequest_def Director_def Let_def Header_Get_def Header_Set_def
        refusing_env_def d)
  from r s show ?thesis
    by (simp add: prod_eq_iff http_Error_def)
qed

text \<open>
  C6 as first stated has \<open>X-Forwarded-Proto\<close> equal to \<open>http\<close> on a plain
  connection and \<open>X-Forwarded-Host\<close> equal to the incoming host.  For the incoming
  host \<open>alpha-3000.localhost\<close> without TLS the upstream request carries \<open>https\<close>,
  and its \<open>X-Forwarded-Host\<close> is the target, because the director reads
  \<open>req.Host\<close> after overwriting it.
\<close>

theorem proxy_rewrite_counterexample:
  "map_option forwarded_fields
     (snd (proxyRequest refusing_env
        \<lparr>Host = ''alpha-3000.localhost'', Header = Map.empty, TLS = False\<rparr> ''10.0.0.5'' 3000))
   = Some (''10.0.0.5:3000'', ''10.0.0.5:3000'', ''https'')"
proof -
  have d: "fmtDecimal 3000 = ''3000''" by code_simp
  show ?thesis
    by (simp add: proxyRequest_def Director_def Let_def Header_Get_def Header_Set_def
        refusing_env_def forwarded_fields_def d)
qed

section \<open>Idle-VM watchdog (package watchdog)\<close>

text \<open>
  A \<open>float64\<close> is a finite value, an infinity or not-a-number; \<open>float_gt\<close> is the
  comparison \<open>>\<close> of the language on such values.
\<close>

datatype float64 = Finite real | PosInf | NegInf | NaN

fun float_gt :: "float64 \<Rightarrow> float64 \<Rightarrow> bool" where
  "float_gt (Finite a) (Finite b) = (a > b)"
| "float_gt PosInf (Finite b) = True"
| "float_gt PosInf NegInf = True"
| "float_gt (Finite a) NegInf = True"
| "float_gt a b = False"

text \<open>
  The constants of the package.  The threshold \<open>0.1\<close> is the \<open>float64\<close> nearest to
  one tenth, \<open>3602879701896397 / 2^55\<close>.
\<close>

definition checkpointPath :: string where "checkpointPath = ''/tmp/dabbi-activity.json''"

definition loadAverageThreshold :: float64 where
  "loadAverageThreshold = Finite (3602879701896397 / 2 ^ 55)"

definition networkNoiseBytes :: "64 word" where "networkNoiseBytes = 100000"

record checkpoint =
  Timestamp :: string
  RxBytes :: "64 word"
  TxBytes :: "64 word"

record activityStats =
  stats_RxBytes :: "64 word"
  stats_TxBytes :: "64 word"
  PTYIdleSeconds :: int
  LoadAverage1Min :: float64

text \<open>
  A \<open>time.Duration\<close> is a count of nanoseconds in 64 bits, a \<open>time.Time\<close> an instant
  in nanoseconds.  \<open>Time.Sub\<close>, and with it \<open>time.Since\<close>, saturates at the
  smallest and the largest duration.
\<close>

definition Second :: int where "Second = 1000000000"
definition Minute :: int where "Minute = 60 * Second"

definition minDuration :: int where "minDuration = - (2 ^ 63)"
definition maxDuration :: int where "maxDuration = 2 ^ 63 - 1"

definition Time_Sub :: "int \<Rightarrow> int \<Rightarrow> int" where
  "Time_Sub t u =
     (if t - u < minDuration then minDuration
      else if t - u > maxDuration then maxDuration
      else t - u)"

text \<open>
  \<open>Duration.Seconds\<close> computes \<open>float64(sec) + float64(nsec)/1e9\<close> from the quotient
  and remainder of the division by a second, which truncates towards zero.  Each
  floating-point operation rounds its exact result; the rounding \<open>rnd\<close> is a
  parameter.  The conversion \<open>int(x)\<close> drops the fraction.
\<close>

definition truncDiv :: "int \<Rightarrow> int \<Rightarrow> int" where
  "truncDiv a b = sgn a * sgn b * (\<bar>a\<bar> div \<bar>b\<bar>)"

definition truncMod :: "int \<Rightarrow> int \<Rightarrow> int" where
  "truncMod a b = a - b * truncDiv a b"

definition Duration_Seconds :: "(real \<Rightarrow> real) \<Rightarrow> int \<Rightarrow> real" where
  "Duration_Seconds rnd d =
     (let sec = truncDiv d Second; nsec = truncMod d Second in
      rnd (rnd (of_int sec) + rnd (rnd (of_int nsec) / 1000000000)))"

definition int_of_float :: "real \<Rightarrow> int" where
  "int_of_float x = (if 0 \<le> x then \<lfloor>x\<rfloor> else \<lceil>x\<rceil>)"

record Watchdog =
  timeout :: int

text \<open>
  What the watchdog obtains from outside on a tick: the list of VMs with their states,
  the parsed activity sample of a VM (or the error's text), the outcome of running a
  command in a VM, the decoding of a checkpoint by \<open>json.Unmarshal\<close>, the parsing of
  an RFC 3339 timestamp by \<open>time.Parse\<close>, and the clock.
\<close>

record watchdog_env =
  List :: "string + (string \<times> string) list"
  getActivityStats :: "string \<Rightarrow> string + activityStats"
  mpExec :: "string \<Rightarrow> string list \<Rightarrow> string + string"
  unmarshalCheckpoint :: "string \<Rightarrow> string + checkpoint"
  parseRFC3339 :: "string \<Rightarrow> int option"
  Now :: int
  rounding :: "real \<Rightarrow> real"

text \<open>
  The two effects of a check on a VM: writing the checkpoint file from the given byte
  counters (stamped with the current time), and the asynchronous \<open>Stop\<close> of the VM.
\<close>

datatype watchdog_action =
    WriteCheckpoint string "64 word" "64 word"
  | StopVM string

definition absDiff :: "64 word \<Rightarrow> 64 word \<Rightarrow> 64 word" where
  "absDiff a b = (if a > b then a - b else b - a)"

definition hasImmediateActivity :: "watchdog_env \<Rightarrow> Watchdog \<Rightarrow> activityStats \<Rightarrow> bool" where
  "hasImmediateActivity env w stats =
     (if PTYIdleSeconds stats \<ge> 0 \<and>
         PTYIdleSeconds stats < int_of_float (Duration_Seconds (rounding env) (timeout w))
      then True
      else if float_gt (LoadAverage1Min stats) loadAverageThreshold then True
      else False)"

definition readCheckpoint :: "watchdog_env \<Rightarrow> string \<Rightarrow> string + checkpoint" where
  "readCheckpoint env vmName =
     (case mpExec env vmName [''cat'', checkpointPath] of
        Inl err \<Rightarrow> Inl err
      | Inr output \<Rightarrow> unmarshalCheckpoint env output)"

definition checkVM :: "watchdog_env \<Rightarrow> Watchdog \<Rightarrow> string \<Rightarrow> watchdog_action list" where
  "checkVM env w vmName =
     (case getActivityStats env vmName of
        Inl err \<Rightarrow> []
      | Inr stats \<Rightarrow>
          if hasImmediateActivity env w stats then
            [WriteCheckpoint vmName (stats_RxBytes stats) (stats_TxBytes stats)]
          else
            (case readCheckpoint env vmName of
               Inl err \<Rightarrow> [WriteCheckpoint vmName (stats_RxBytes stats) (stats_TxBytes stats)]
             | Inr prev \<Rightarrow>
                 (case parseRFC3339 env (Timestamp prev) of
                    None \<Rightarrow> [WriteCheckpoint vmName (stats_RxBytes stats) (stats_TxBytes stats)]
                  | Some checkpointTime \<Rightarrow>
                      (let totalDelta = absDiff (stats_RxBytes stats) (RxBytes prev) +
                                        absDiff (stats_TxBytes stats) (TxBytes prev) in
                       if totalDelta > networkNoiseBytes then
                         [WriteCheckpoint vmName (stats_RxBytes stats) (stats_TxBytes stats)]
                       else if Time_Sub (Now env) checkpointTime > timeout w then
                         [StopVM vmName]
                       else []))))"

text \<open>\<open>checkAllVMs\<close>: the VMs are pairs of name and state.\<close>

definition checkAllVMs :: "watchdog_env \<Rightarrow> Watchdog \<Rightarrow> watchdog_action list" where
  "checkAllVMs env w =
     (case List env of
        Inl err \<Rightarrow> []
      | Inr vms \<Rightarrow>
          concat (map (\<lambda>(name, state). if state = StateRunning then checkVM env w name else []) vms))"

text \<open>
  An environment for examples.  VM \<open>beta\<close> has no terminal (\<open>-1\<close>) and load \<open>0.01\<close>;
  its counters read 0 received and 1 sent, and its checkpoint, stamped one hour
  before the current time, records \<open>2^64 - 1\<close> received and 0 sent.
\<close>

definition wrapped_env :: watchdog_env where
  "wrapped_env =
     \<lparr>List = Inr [(''beta'', ''Running'')],
      getActivityStats = (\<lambda>vm. Inr \<lparr>stats_RxBytes = 0, stats_TxBytes = 1,
                                      PTYIdleSeconds = - 1, LoadAverage1Min = Finite (1 / 100)\<rparr>),
      mpExec = (\<lambda>vm cmd. Inr ''checkpoint''),
      unmarshalCheckpoint = (\<lambda>text. Inr \<lparr>Timestamp = ''2026-01-01T00:00:00Z'',
                                            RxBytes = 18446744073709551615, TxBytes = 0\<rparr>),
      parseRFC3339 = (\<lambda>text. Some 0),
      Now = 60 * Minute,
      rounding = (\<lambda>x. x)\<rparr>"

section \<open>Properties of the watchdog's decision\<close>

text \<open>
  \<open>absDiff\<close> is the absolute difference of the counters; the sum of two of them
  is exact as long as it stays below \<open>2^64\<close>.
\<close>

lemma uint_absDiff: "uint (absDiff a b) = \<bar>uint a - uint b\<bar>"
proof (cases "a > b")
  case True
  then have lt: "uint b < uint a" by (simp add: word_less_def)
  then have "uint b \<le> uint a" by simp
  then have "uint (a - b) = uint a - uint b" by (simp only: uint_sub_lem)
  with lt show ?thesis using True by (simp add: absDiff_def)
next
  case False
  then have "a \<le> b" by simp
  then have le: "uint a \<le> uint b" by (simp add: word_le_def)
  then have "uint (b - a) = uint b - uint a" by (simp only: uint_sub_lem)
  with le show ?thesis using False by (simp add: absDiff_def)
qed

lemma totalDelta_exact:
  assumes "\<bar>uint a - uint b\<bar> + \<bar>uint c - uint d\<bar> < 2 ^ 64"
  shows "(absDiff a b + absDiff c d > networkNoiseBytes) \<longleftrightarrow>
         \<bar>uint a - uint b\<bar> + \<bar>uint c - uint d\<bar> > 100000"
proof -
  have "uint (absDiff a b + absDiff c d) = (uint (absDiff a b) + uint (absDiff c d)) mod 2 ^ 64"
    by (simp add: uint_word_ariths)
  also have "\<dots> = \<bar>uint a - uint b\<bar> + \<bar>uint c - uint d\<bar>"
    using assms by (simp add: uint_absDiff)
  finally have "uint (absDiff a b + absDiff c d) = \<bar>uint a - uint b\<bar> + \<bar>uint c - uint d\<bar>" .
  then show ?thesis
    by (simp add: word_less_def networkNoiseBytes_def)
qed

text \<open>The decision of \<open>checkVM\<close> once the sample is there, branch by branch.\<close>

lemma checkVM_decision:
  assumes "getActivityStats env vmName = Inr stats"
  shows
    "checkVM env w vmName =
       (if hasImmediateActivity env w stats then
          [WriteCheckpoint vmName (stats_RxBytes stats) (stats_TxBytes stats)]
        else case readCheckpoint env vmName of
          Inl err \<Rightarrow> [WriteCheckpoint vmName (stats_RxBytes stats) (stats_TxBytes stats)]
        | Inr prev \<Rightarrow>
           (case parseRFC3339 env (Timestamp prev) of
              None \<Rightarrow> [WriteCheckpoint vmName (stats_RxBytes stats) (stats_TxBytes stats)]
            | Some t \<Rightarrow>
                if absDiff (stats_RxBytes stats) (RxBytes prev) +
                   absDiff (stats_TxBytes stats) (TxBytes prev) > networkNoiseBytes
                then [WriteCheckpoint vmName (stats_RxBytes stats) (stats_TxBytes stats)]
                else if Time_Sub (Now env) t > timeout w then [StopVM vmName] else []))"
  using assms by (simp add: checkVM_def Let_def split: sum.splits option.splits)

section \<open>Claim about the stop decision\<close>

text \<open>
  C3.  The claim has no \<open>Stop\<close> issued, and the checkpoint rewritten, whenever
  the byte counters moved by more than 100000 in total since the checkpoint.  The
  source adds the two absolute differences in 64 bits.  For VM \<open>beta\<close> of
  \<open>wrapped_env\<close> the differences are \<open>2^64 - 1\<close> and \<open>1\<close>: their sum wraps to
  \<open>0\<close>, the checkpoint is an hour old under a timeout of thirty minutes, and
  \<open>checkVM\<close> issues the \<open>Stop\<close> and writes no checkpoint.
\<close>

theorem watchdog_stops_on_wrapped_delta:
  "checkVM wrapped_env \<lparr>timeout = 30 * Minute\<rparr> ''beta'' = [StopVM ''beta''] \<and>
   checkAllVMs wrapped_env \<lparr>timeout = 30 * Minute\<rparr> = [StopVM ''beta''] \<and>
   \<bar>uint (0 :: 64 word) - uint (18446744073709551615 :: 64 word)\<bar> +
   \<bar>uint (1 :: 64 word) - uint (0 :: 64 word)\<bar> > 100000"
proof -
  have secs: "int_of_float (Duration_Seconds (\<lambda>x. x) (30 * Minute)) = 1800"
    by (simp add: int_of_float_def Duration_Seconds_def truncDiv_def truncMod_def
        Second_def Minute_def Let_def)
  have imm: "\<not> hasImmediateActivity wrapped_env \<lparr>timeout = 30 * Minute\<rparr>
      \<lparr>stats_RxBytes = 0, stats_TxBytes = 1, PTYIdleSeconds = - 1, LoadAverage1Min = Finite (1 / 100)\<rparr>"
    by (simp add: hasImmediateActivity_def wrapped_env_def loadAverageThreshold_def)
  have delta: "absDiff (0 :: 64 word) 18446744073709551615 + absDiff 1 0 = 0"
    by (simp add: absDiff_def)
  have since: "Time_Sub (60 * Minute) 0 > 30 * Minute"
    by (simp add: Time_Sub_def Minute_def Second_def minDuration_def maxDuration_def)
  have c: "checkVM wrapped_env \<lparr>timeout = 30 * Minute\<rparr> ''beta'' = [StopVM ''beta'']"
    using imm delta since
    by (simp add: checkVM_def readCheckpoint_def wrapped_env_def Let_def networkNoiseBytes_def)
  then have "checkAllVMs wrapped_env \<lparr>timeout = 30 * Minute\<rparr> = [StopVM ''beta'']"
    by (simp add: checkAllVMs_def wrapped_env_def StateRunning_def)
  with c show ?thesis by simp
qed

end
